theory Spec2Isabelle
  imports Complex_Main "HOL-Library.Sublist"
begin

section \<open>Strings: column names and price cells\<close>

text \<open>
  Python strings are sequences of code points. A \<^typ>\<open>char\<close> holds a code point below
  256, so the string functions below are those of Python on that range: the white space
  of \<^verbatim>\<open>str.strip()\<close>, the letters of \<^verbatim>\<open>str.lower()\<close> and the digits of \<^verbatim>\<open>\d\<close> are
  listed for code points 0 to 255.
\<close>

definition ord_of :: "char \<Rightarrow> nat" where
  "ord_of c = of_char c"

definition isspace :: "char \<Rightarrow> bool" where
  "isspace c = ((9 \<le> ord_of c \<and> ord_of c \<le> 13) \<or> (28 \<le> ord_of c \<and> ord_of c \<le> 32)
                \<or> ord_of c = 133 \<or> ord_of c = 160)"

definition isdigit :: "char \<Rightarrow> bool" where
  "isdigit c = (48 \<le> ord_of c \<and> ord_of c \<le> 57)"

definition isupper :: "char \<Rightarrow> bool" where
  "isupper c = ((65 \<le> ord_of c \<and> ord_of c \<le> 90)
                \<or> (192 \<le> ord_of c \<and> ord_of c \<le> 222 \<and> ord_of c \<noteq> 215))"

text \<open>\<^verbatim>\<open>[0-9a-zA-Z_]\<close>, the characters the last replacement keeps.\<close>

definition isword :: "char \<Rightarrow> bool" where
  "isword c = (isdigit c \<or> (97 \<le> ord_of c \<and> ord_of c \<le> 122)
               \<or> (65 \<le> ord_of c \<and> ord_of c \<le> 90) \<or> ord_of c = 95)"

definition strip :: "string \<Rightarrow> string" where
  "strip s = rev (dropWhile isspace (rev (dropWhile isspace s)))"

definition lower_char :: "char \<Rightarrow> char" where
  "lower_char c = (if isupper c then char_of (ord_of c + 32) else c)"

definition lower :: "string \<Rightarrow> string" where
  "lower s = map lower_char s"

text \<open>\<^verbatim>\<open>.str.replace(" ", "_")\<close>\<close>

definition replace_space :: "string \<Rightarrow> string" where
  "replace_space s = map (\<lambda>c. if c = CHR '' '' then CHR ''_'' else c) s"

text \<open>\<^verbatim>\<open>.str.replace(r"[^0-9a-zA-Z_]", "", regex=True)\<close>\<close>

definition replace_nonword :: "string \<Rightarrow> string" where
  "replace_nonword s = filter isword s"

text \<open>The chain applied to every column name (fertilizer.py 85-91, livestock.py 88-94).\<close>

definition clean_name :: "string \<Rightarrow> string" where
  "clean_name s = replace_nonword (replace_space (lower (strip s)))"

text \<open>The characters a cleaned name is made of: \<^verbatim>\<open>[0-9a-z_]\<close>.\<close>

definition canonical :: "char \<Rightarrow> bool" where
  "canonical c = (isdigit c \<or> (97 \<le> ord_of c \<and> ord_of c \<le> 122) \<or> ord_of c = 95)"

subsection \<open>The price pattern\<close>

text \<open>
  \<^verbatim>\<open>.str.extract(r'(\d+\.?\d*)')[0]\<close> searches each cell text for the leftmost match of
  the pattern and yields the text of group 1, or a null when nothing matches. Every
  quantifier of the pattern is greedy and everything after \<^verbatim>\<open>\d+\<close> is optional, so the
  match at a position takes all the digits there, then a dot if one follows, then all the
  digits after the dot.
\<close>

definition match_here :: "string \<Rightarrow> string option" where
  "match_here s =
     (let whole = takeWhile isdigit s; rest = dropWhile isdigit s in
      if whole = [] then None
      else Some (case rest of
                   [] \<Rightarrow> whole
                 | c # rest' \<Rightarrow>
                     if c = CHR ''.'' then whole @ CHR ''.'' # takeWhile isdigit rest'
                     else whole))"

fun re_search :: "string \<Rightarrow> string option" where
  "re_search [] = None"
| "re_search (c # s) =
     (case match_here (c # s) of Some m \<Rightarrow> Some m | None \<Rightarrow> re_search s)"

text \<open>
  A numeric value of a cell: a finite one (the value of a double or of an integer), or an
  infinity of a double. The NaN of a double is the null cell.
\<close>

datatype number = Finite rat | PosInf | NegInf


fun positive :: "number \<Rightarrow> bool" where
  "positive (Finite q) = (0 < q)"
| "positive PosInf = True"
| "positive NegInf = False"

datatype cell = Null | Str string | Num number | Date nat nat nat

definition str_extract :: "cell \<Rightarrow> cell" where
  "str_extract v = (case v of
                      Str s \<Rightarrow> (case re_search s of None \<Rightarrow> Null | Some m \<Rightarrow> Str m)
                    | _ \<Rightarrow> Null)"

text \<open>
  \<^verbatim>\<open>pd.to_numeric(..., errors='coerce')\<close> on one cell. How pandas reads a text as a double
  (its rounding, what it does with a numeral too large for a double) is the library's:
  \<open>conv\<close> is that reading, \<open>None\<close> when the text is coerced to NaN.
\<close>

definition numeric_cell :: "(string \<Rightarrow> number option) \<Rightarrow> cell \<Rightarrow> cell" where
  "numeric_cell conv v =
     (case v of
        Str s \<Rightarrow> (case conv s of None \<Rightarrow> Null | Some x \<Rightarrow> Num x)
      | Num x \<Rightarrow> Num x
      | _ \<Rightarrow> Null)"

text \<open>The value stored for one cell of \<^verbatim>\<open>wholesale\<close> or \<^verbatim>\<open>retail\<close>.\<close>

definition price_cell :: "(string \<Rightarrow> number option) \<Rightarrow> cell \<Rightarrow> cell" where
  "price_cell conv v = numeric_cell conv (str_extract v)"

section \<open>Data frames\<close>

text \<open>
  A frame is its column names and its rows, each row holding one cell per column, in
  column order. \<^verbatim>\<open>pd.read_html\<close> gives every frame distinct column names.
\<close>

record dataframe =
  columns :: "string list"
  rows :: "cell list list"

datatype exn =
    NotFound | KeyError "string list" | ValueError | AttributeError | TypeError
  | IndexError | ConnectionError | BadRequest | Conflict | ServiceUnavailable

text \<open>\<^verbatim>\<open>pd.DataFrame()\<close>\<close>

definition DataFrame :: dataframe where
  "DataFrame = \<lparr>columns = [], rows = []\<rparr>"

text \<open>\<^verbatim>\<open>df.empty\<close>: an axis of length 0.\<close>

definition empty_df :: "dataframe \<Rightarrow> bool" where
  "empty_df df = (columns df = [] \<or> rows df = [])"

definition cell_at :: "string list \<Rightarrow> cell list \<Rightarrow> string \<Rightarrow> cell option" where
  "cell_at cols r c = map_of (zip cols r) c"

definition reindex :: "string list \<Rightarrow> string list \<Rightarrow> cell list \<Rightarrow> cell list" where
  "reindex new old r = map (\<lambda>c. case cell_at old r c of Some v \<Rightarrow> v | None \<Rightarrow> Null) new"

text \<open>
  \<^verbatim>\<open>pd.concat([a, b], ignore_index=True)\<close>: the rows of \<open>a\<close>, then those of \<open>b\<close>, over the
  union of the columns in order of appearance; a cell a frame lacks is null.
\<close>

definition concat_df :: "dataframe \<Rightarrow> dataframe \<Rightarrow> dataframe" where
  "concat_df a b =
     (let cols = columns a @ filter (\<lambda>c. c \<notin> set (columns a)) (columns b) in
      \<lparr>columns = cols,
       rows = map (reindex cols (columns a)) (rows a) @ map (reindex cols (columns b)) (rows b)\<rparr>)"

text \<open>The values of the column named \<open>c\<close>, top to bottom.\<close>

definition column_values :: "dataframe \<Rightarrow> string \<Rightarrow> cell list" where
  "column_values df c =
     map (\<lambda>r. case cell_at (columns df) r c of Some v \<Rightarrow> v | None \<Rightarrow> Null) (rows df)"

text \<open>
  \<^verbatim>\<open>df[c] = vals\<close> for a column that exists: a value list of another length than the
  frame raises.
\<close>

definition setitem :: "dataframe \<Rightarrow> string \<Rightarrow> cell list \<Rightarrow> exn + dataframe" where
  "setitem df c vals =
     (if length vals \<noteq> length (rows df) then Inl ValueError
      else Inr (df\<lparr>rows :=
             map (\<lambda>(r, v). map (\<lambda>(name, old). if name = c then v else old) (zip (columns df) r))
                 (zip (rows df) vals)\<rparr>))"

text \<open>\<^verbatim>\<open>df.drop(columns=labels, inplace=True)\<close>: a label that is no column raises.\<close>

definition drop_columns :: "string list \<Rightarrow> dataframe \<Rightarrow> exn + dataframe" where
  "drop_columns labels df =
     (let missing = filter (\<lambda>c. c \<notin> set (columns df)) labels in
      if missing \<noteq> [] then Inl (KeyError missing)
      else Inr \<lparr>columns = filter (\<lambda>c. c \<notin> set labels) (columns df),
                rows = map (\<lambda>r. map snd (filter (\<lambda>(name, v). name \<notin> set labels)
                                               (zip (columns df) r))) (rows df)\<rparr>)"

subsection \<open>Duplicates\<close>

text \<open>The key of a row: its cells in the columns \<open>keys\<close>.\<close>

definition key_of :: "string list \<Rightarrow> string list \<Rightarrow> cell list \<Rightarrow> cell option list" where
  "key_of cols keys r = map (cell_at cols r) keys"

text \<open>
  \<^verbatim>\<open>duplicated(keep='first')\<close> marks a row whose key an earlier row has; nulls compare
  equal. \<open>seen\<close> holds the keys of the rows above.
\<close>

fun duplicated_from :: "'k list \<Rightarrow> 'k list \<Rightarrow> bool list" where
  "duplicated_from seen [] = []"
| "duplicated_from seen (k # ks) = (k \<in> set seen) # duplicated_from (k # seen) ks"

definition duplicated :: "string list \<Rightarrow> dataframe \<Rightarrow> exn + bool list" where
  "duplicated keys df =
     (let missing = filter (\<lambda>c. c \<notin> set (columns df)) keys in
      if missing \<noteq> [] then Inl (KeyError missing)
      else Inr (duplicated_from [] (map (key_of (columns df) keys) (rows df))))"

text \<open>\<^verbatim>\<open>drop_duplicates(subset=keys, inplace=True)\<close> keeps the rows that are not marked.\<close>

definition drop_duplicates :: "string list \<Rightarrow> dataframe \<Rightarrow> exn + dataframe" where
  "drop_duplicates keys df =
     (case duplicated keys df of
        Inl x \<Rightarrow> Inl x
      | Inr marks \<Rightarrow> Inr (df\<lparr>rows := map fst (filter (\<lambda>(r, d). \<not> d) (zip (rows df) marks))\<rparr>))"

section \<open>The two pipelines\<close>

text \<open>
  \<^verbatim>\<open>fertilizer.py\<close> and \<^verbatim>\<open>livestock.py\<close> are one script with a few differences; the
  definitions below take the pipeline as a parameter and branch where the files differ.
\<close>

datatype pipeline = Fertilizer | Livestock

fun commodities :: "pipeline \<Rightarrow> nat list" where
  "commodities Fertilizer = [217]"
| "commodities Livestock = [140, 168, 167, 211, 227]"

fun dataset :: "pipeline \<Rightarrow> string" where
  "dataset Fertilizer = ''fertilizer''"
| "dataset Livestock = ''livestock''"

text \<open>The \<^verbatim>\<open>subset=\<close> argument of \<^verbatim>\<open>duplicated\<close> and \<^verbatim>\<open>drop_duplicates\<close>.\<close>

fun dedup_key :: "pipeline \<Rightarrow> string list" where
  "dedup_key Fertilizer =
     [''commodity'', ''classification'', ''market'', ''wholesale'', ''retail'',
      ''supply_volume'', ''county'', ''date'']"
| "dedup_key Livestock =
     [''commodity'', ''classification'', ''grade'', ''sex'', ''market'', ''wholesale'',
      ''retail'', ''supply_volume'', ''county'', ''date'']"

fun schema :: "pipeline \<Rightarrow> (string \<times> string) list" where
  "schema Fertilizer =
     [(''commodity'', ''STRING''), (''classification'', ''STRING''), (''market'', ''STRING''),
      (''wholesale'', ''FLOAT''), (''retail'', ''FLOAT''), (''supply_volume'', ''FLOAT''),
      (''county'', ''STRING''), (''date'', ''DATE'')]"
| "schema Livestock =
     [(''commodity'', ''STRING''), (''classification'', ''STRING''), (''grade'', ''STRING''),
      (''sex'', ''STRING''), (''market'', ''STRING''), (''wholesale'', ''FLOAT''),
      (''retail'', ''FLOAT''), (''supply_volume'', ''FLOAT''), (''county'', ''STRING''),
      (''date'', ''DATE'')]"

subsection \<open>Tables and statements\<close>

record datetime =
  year :: nat
  month :: nat
  day :: nat

text \<open>
  A table of project \<^verbatim>\<open>data-storage-485106\<close> is named
  \<^verbatim>\<open>{dataset}.market_prices_{year}_{month}\<close>; it is identified here by the dataset and
  the year and month of the suffix. The script spells the current table both as one
  dotted name and as a dataset with a table name; both are this one table.
\<close>

type_synonym table = "string \<times> nat \<times> nat"

definition table_id :: "pipeline \<Rightarrow> datetime \<Rightarrow> table" where
  "table_id p now = (dataset p, year now, month now)"

text \<open>\<^verbatim>\<open>now.replace(day=1) - timedelta(days=1)\<close> lies in the month before.\<close>

definition prev_table_id :: "pipeline \<Rightarrow> datetime \<Rightarrow> table" where
  "prev_table_id p now =
     (if month now = 1 then (dataset p, year now - 1, 12)
      else (dataset p, year now, month now - 1))"

text \<open>
  The two shapes of SQL the scripts send: the count of the rows of a table dated in a
  month of a year, and \<^verbatim>\<open>SELECT *\<close> with an optional \<^verbatim>\<open>ORDER BY <column> DESC\<close>.
\<close>

datatype statement =
    CountMonth table nat nat
  | SelectAll table "string option"

definition check_sql :: "pipeline \<Rightarrow> datetime \<Rightarrow> statement" where
  "check_sql p now = CountMonth (table_id p now) (month now) (year now)"

fun prev_sql :: "pipeline \<Rightarrow> datetime \<Rightarrow> statement" where
  "prev_sql Fertilizer now = SelectAll (prev_table_id Fertilizer now) (Some ''date'')"
| "prev_sql Livestock now = SelectAll (prev_table_id Livestock now) None"

text \<open>The read of the reconciliation pass (fertilizer.py 156-160, livestock.py 141-144).\<close>

fun reconcile_sql :: "pipeline \<Rightarrow> datetime \<Rightarrow> statement" where
  "reconcile_sql Fertilizer now = SelectAll (table_id Fertilizer now) (Some ''start_date'')"
| "reconcile_sql Livestock now = SelectAll (table_id Livestock now) None"

fun order_by :: "statement \<Rightarrow> string option" where
  "order_by (CountMonth t m y) = None"
| "order_by (SelectAll t c) = c"

subsection \<open>The site and the store\<close>

text \<open>
  The site and the store are outside the scripts. A response is abstracted to its status
  and the tables of its HTML text; \<^verbatim>\<open>pd.read_html\<close> raises when the text holds no table.
\<close>

record response =
  status_code :: nat
  html_tables :: "dataframe list"

definition read_html :: "response \<Rightarrow> exn + dataframe list" where
  "read_html r = (if html_tables r = [] then Inl ValueError else Inr (html_tables r))"

datatype call =
    Query statement
  | Load table dataframe
  | DeleteTable table
  | CreateTable table "(string \<times> string) list"

text \<open>An event is a call made on the store and the exception it raised, if any.\<close>

type_synonym event = "call \<times> exn option"

text \<open>
  What the world answers. \<open>session_get\<close> is the outcome of the retried \<^verbatim>\<open>session.get\<close>
  for a commodity and an offset (the URL is a function of the two). \<open>to_numeric\<close> is
  what \<^verbatim>\<open>pd.to_numeric\<close> reads from a text, \<open>None\<close> for NaN. The store answers
  each call given the events so far. \<open>job_state n\<close> is the state of the last load job after
  \<open>n\<close> reloads, \<open>job_reload n\<close> what the reload after it raises.
\<close>

record env =
  session_get :: "nat \<Rightarrow> nat \<Rightarrow> exn + response"
  to_datetime :: "cell list \<Rightarrow> exn + cell list"
  to_numeric :: "string \<Rightarrow> number option"
  query :: "event list \<Rightarrow> statement \<Rightarrow> exn + dataframe"
  load_table_from_dataframe :: "event list \<Rightarrow> table \<Rightarrow> dataframe \<Rightarrow> exn option"
  job_result :: "event list \<Rightarrow> table \<Rightarrow> dataframe \<Rightarrow> exn option"
  delete_table :: "event list \<Rightarrow> table \<Rightarrow> exn option"
  create_table :: "event list \<Rightarrow> table \<Rightarrow> (string \<times> string) list \<Rightarrow> exn option"
  job_state :: "nat \<Rightarrow> string"
  job_reload :: "nat \<Rightarrow> exn option"

definition call_query :: "env \<Rightarrow> event list \<Rightarrow> statement \<Rightarrow> (exn + dataframe) \<times> event list" where
  "call_query e tr q =
     (let r = query e tr q
      in (r, tr @ [(Query q, case r of Inl x \<Rightarrow> Some x | Inr _ \<Rightarrow> None)]))"

text \<open>\<^verbatim>\<open>load_table_from_dataframe(...)\<close> followed by \<^verbatim>\<open>job.result()\<close>.\<close>

definition load_outcome :: "env \<Rightarrow> event list \<Rightarrow> table \<Rightarrow> dataframe \<Rightarrow> exn option" where
  "load_outcome e tr t df =
     (case load_table_from_dataframe e tr t df of
        Some x \<Rightarrow> Some x
      | None \<Rightarrow> job_result e tr t df)"

definition call_load :: "env \<Rightarrow> event list \<Rightarrow> table \<Rightarrow> dataframe \<Rightarrow> exn option \<times> event list" where
  "call_load e tr t df = (let r = load_outcome e tr t df in (r, tr @ [(Load t df, r)]))"

text \<open>\<^verbatim>\<open>load_table_from_dataframe(...)\<close> alone, as the last load of a run.\<close>

definition call_submit :: "env \<Rightarrow> event list \<Rightarrow> table \<Rightarrow> dataframe \<Rightarrow> exn option \<times> event list" where
  "call_submit e tr t df =
     (let r = load_table_from_dataframe e tr t df in (r, tr @ [(Load t df, r)]))"

definition call_delete :: "env \<Rightarrow> event list \<Rightarrow> table \<Rightarrow> exn option \<times> event list" where
  "call_delete e tr t = (let r = delete_table e tr t in (r, tr @ [(DeleteTable t, r)]))"

definition call_create ::
  "env \<Rightarrow> event list \<Rightarrow> table \<Rightarrow> (string \<times> string) list \<Rightarrow> exn option \<times> event list" where
  "call_create e tr t sch = (let r = create_table e tr t sch in (r, tr @ [(CreateTable t sch, r)]))"

subsection \<open>Fetching\<close>

text \<open>The body of the \<^verbatim>\<open>try\<close>: the request, then the parse of its text.\<close>

definition try_page :: "env \<Rightarrow> nat \<Rightarrow> nat \<Rightarrow> exn + dataframe list" where
  "try_page e commodity offset =
     (case session_get e commodity offset of
        Inl x \<Rightarrow> Inl x
      | Inr response \<Rightarrow> read_html response)"

text \<open>
  The \<^verbatim>\<open>while True\<close> loop of one commodity. Any exception of the \<^verbatim>\<open>try\<close> breaks the
  loop; \<^verbatim>\<open>market_prices[0]\<close> and the concatenation stand outside the \<^verbatim>\<open>try\<close>. The loop
  has no other exit, so it need not return: \<open>None\<close> is the run that pages for ever.
\<close>

partial_function (option) paginate ::
  "env \<Rightarrow> nat \<Rightarrow> nat \<Rightarrow> dataframe \<Rightarrow> (exn + dataframe) option" where
  "paginate e commodity offset bigdata =
     (case try_page e commodity offset of
        Inl x \<Rightarrow> Some (Inr bigdata)
      | Inr market_prices \<Rightarrow>
          (case market_prices of
             [] \<Rightarrow> Some (Inl IndexError)
           | first # _ \<Rightarrow> paginate e commodity (offset + 3000) (concat_df bigdata first)))"

text \<open>The \<^verbatim>\<open>for commodity in commodities\<close> loop.\<close>

fun fetch_all :: "env \<Rightarrow> nat list \<Rightarrow> dataframe \<Rightarrow> (exn + dataframe) option" where
  "fetch_all e [] bigdata = Some (Inr bigdata)"
| "fetch_all e (commodity # rest) bigdata =
     (case paginate e commodity 0 bigdata of
        None \<Rightarrow> None
      | Some (Inl x) \<Rightarrow> Some (Inl x)
      | Some (Inr bigdata') \<Rightarrow> fetch_all e rest bigdata')"

subsection \<open>Normalising\<close>

definition clean_names :: "dataframe \<Rightarrow> dataframe" where
  "clean_names df = df\<lparr>columns := map clean_name (columns df)\<rparr>"

text \<open>
  \<^verbatim>\<open>df[c]\<close> read as one column. A name no column bears raises \<^verbatim>\<open>KeyError\<close>. A name several
  columns bear selects a frame, on which the call that follows raises \<open>dup\<close>.
\<close>

definition the_column :: "dataframe \<Rightarrow> string \<Rightarrow> exn \<Rightarrow> exn + cell list" where
  "the_column df c dup =
     (if c \<notin> set (columns df) then Inl (KeyError [c])
      else if 1 < count_list (columns df) c then Inl dup
      else Inr (column_values df c))"

definition convert_date :: "env \<Rightarrow> dataframe \<Rightarrow> exn + dataframe" where
  "convert_date e df =
     (case the_column df ''date'' ValueError of
        Inl x \<Rightarrow> Inl x
      | Inr col \<Rightarrow>
          (case to_datetime e col of
             Inl x \<Rightarrow> Inl x
           | Inr vals \<Rightarrow> setitem df ''date'' vals))"

fun is_text :: "cell \<Rightarrow> bool" where
  "is_text (Str s) = True"
| "is_text _ = False"

text \<open>
  \<^verbatim>\<open>.str\<close> raises on a column that is not of texts. A column \<^verbatim>\<open>read_html\<close> left as
  texts holds at least one text; a column of numbers or of nulls only is numeric.
\<close>

definition str_accessor :: "cell list \<Rightarrow> exn + cell list" where
  "str_accessor col = (if list_ex is_text col then Inr col else Inl AttributeError)"

text \<open>
  \<^verbatim>\<open>pd.to_numeric(col.str.extract(r'(\d+\.?\d*)')[0], errors='coerce')\<close> on the values of
  a column.
\<close>

definition price_column :: "env \<Rightarrow> cell list \<Rightarrow> exn + cell list" where
  "price_column e col =
     (case str_accessor col of
        Inl x \<Rightarrow> Inl x
      | Inr texts \<Rightarrow> Inr (map (price_cell (to_numeric e)) texts))"

definition convert_price :: "env \<Rightarrow> dataframe \<Rightarrow> string \<Rightarrow> exn + dataframe" where
  "convert_price e df c =
     (case the_column df c AttributeError of
        Inl x \<Rightarrow> Inl x
      | Inr col \<Rightarrow>
          (case price_column e col of
             Inl x \<Rightarrow> Inl x
           | Inr vals \<Rightarrow> setitem df c vals))"

text \<open>The three conversions under \<^verbatim>\<open># Standardize Data Types\<close>.\<close>

definition standardize :: "env \<Rightarrow> dataframe \<Rightarrow> exn + dataframe" where
  "standardize e df =
     (case convert_date e df of
        Inl x \<Rightarrow> Inl x
      | Inr dated \<Rightarrow>
          (case convert_price e dated ''wholesale'' of
             Inl x \<Rightarrow> Inl x
           | Inr w \<Rightarrow> convert_price e w ''retail''))"

text \<open>
  Lines 85-99 of fertilizer.py, 88-99 of livestock.py: clean the names, standardize, and
  in fertilizer.py drop \<^verbatim>\<open>grade\<close> and \<^verbatim>\<open>sex\<close>.
\<close>

definition normalise :: "pipeline \<Rightarrow> env \<Rightarrow> dataframe \<Rightarrow> exn + dataframe" where
  "normalise p e bigdata =
     (case standardize e (clean_names bigdata) of
        Inl x \<Rightarrow> Inl x
      | Inr r \<Rightarrow>
          (case p of
             Fertilizer \<Rightarrow> drop_columns [''grade'', ''sex''] r
           | Livestock \<Rightarrow> Inr r))"

subsection \<open>Appending\<close>

text \<open>\<^verbatim>\<open>check_df.loc[0, "cnt"] > 0\<close>\<close>

definition cnt_positive :: "dataframe \<Rightarrow> exn + bool" where
  "cnt_positive check_df =
     (case rows check_df of
        [] \<Rightarrow> Inl (KeyError [''0''])
      | r # _ \<Rightarrow>
          (case cell_at (columns check_df) r ''cnt'' of
             None \<Rightarrow> Inl (KeyError [''cnt''])
           | Some v \<Rightarrow>
               (case v of
                  Num n \<Rightarrow> Inr (positive n)
                | Null \<Rightarrow> Inr False
                | _ \<Rightarrow> Inl TypeError)))"

text \<open>
  The check of fertilizer.py 107-117: only \<^verbatim>\<open>NotFound\<close> is caught, any other exception
  leaves the script.
\<close>

definition has_current_month_data ::
  "env \<Rightarrow> datetime \<Rightarrow> event list \<Rightarrow> (exn + bool) \<times> event list" where
  "has_current_month_data e now tr =
     (case call_query e tr (check_sql Fertilizer now) of
        (Inl x, tr') \<Rightarrow> (if x = NotFound then Inr False else Inl x, tr')
      | (Inr check_df, tr') \<Rightarrow> (cnt_positive check_df, tr'))"

text \<open>
  The \<^verbatim>\<open>try\<close> block of the first of the month (fertilizer.py 120-143, livestock.py
  105-128). The inner \<^verbatim>\<open>except NotFound\<close> skips the carry-forward; the outer
  \<^verbatim>\<open>except Exception\<close> prints and goes on, so the block raises nothing.
\<close>

definition first_of_month_load ::
  "pipeline \<Rightarrow> env \<Rightarrow> datetime \<Rightarrow> dataframe \<Rightarrow> event list \<Rightarrow> event list" where
  "first_of_month_load p e now bigdata tr =
     (case call_query e tr (prev_sql p now) of
        (Inl x, tr') \<Rightarrow>
          if x = NotFound then snd (call_load e tr' (table_id p now) bigdata) else tr'
      | (Inr prev_data, tr') \<Rightarrow>
          snd (call_load e tr' (table_id p now) (concat_df prev_data bigdata)))"

text \<open>
  Lines 104-153 of fertilizer.py, 104-138 of livestock.py: the exception that leaves the
  script, if any, and the events.
\<close>

definition append_batch ::
  "pipeline \<Rightarrow> env \<Rightarrow> datetime \<Rightarrow> dataframe \<Rightarrow> exn option \<times> event list" where
  "append_batch p e now bigdata =
     (if day now = 1 then
        (case p of
           Fertilizer \<Rightarrow>
             (case has_current_month_data e now [] of
                (Inl x, tr) \<Rightarrow> (Some x, tr)
              | (Inr has, tr) \<Rightarrow>
                  (None, if \<not> has then first_of_month_load p e now bigdata tr else tr))
         | Livestock \<Rightarrow> (None, first_of_month_load p e now bigdata []))
      else call_load e [] (table_id p now) bigdata)"

subsection \<open>Reconciling\<close>

text \<open>The \<^verbatim>\<open>while job.state != 'DONE'\<close> loop; the sleep is not modelled.\<close>

partial_function (option) wait_job ::
  "(nat \<Rightarrow> string) \<Rightarrow> (nat \<Rightarrow> exn option) \<Rightarrow> nat \<Rightarrow> exn option option" where
  "wait_job state reload n =
     (if state n = ''DONE'' then Some None
      else (case reload n of
              Some x \<Rightarrow> Some (Some x)
            | None \<Rightarrow> wait_job state reload (Suc n)))"

datatype outcome = Exit nat | Raised exn | Finished

text \<open>
  From the read of the table to the end of the script. A failed \<^verbatim>\<open>create_table\<close> is
  printed and passed over.
\<close>

definition reconcile ::
  "pipeline \<Rightarrow> env \<Rightarrow> datetime \<Rightarrow> event list \<Rightarrow> (outcome \<times> event list) option" where
  "reconcile p e now tr =
     (case call_query e tr (reconcile_sql p now) of
        (Inl x, tr1) \<Rightarrow> Some (Raised x, tr1)
      | (Inr data, tr1) \<Rightarrow>
          (case call_delete e tr1 (table_id p now) of
             (Some x, tr2) \<Rightarrow> Some (Raised x, tr2)
           | (None, tr2) \<Rightarrow>
               (case duplicated (dedup_key p) data of
                  Inl x \<Rightarrow> Some (Raised x, tr2)
                | Inr _ \<Rightarrow>
                    (case drop_duplicates (dedup_key p) data of
                       Inl x \<Rightarrow> Some (Raised x, tr2)
                     | Inr deduplicated \<Rightarrow>
                         (case call_submit e (snd (call_create e tr2 (table_id p now) (schema p)))
                                 (table_id p now) deduplicated of
                            (Some x, tr4) \<Rightarrow> Some (Raised x, tr4)
                          | (None, tr4) \<Rightarrow>
                              (case wait_job (job_state e) (job_reload e) 0 of
                                 None \<Rightarrow> None
                               | Some (Some x) \<Rightarrow> Some (Raised x, tr4)
                               | Some None \<Rightarrow> Some (Finished, tr4)))))))"

subsection \<open>The script\<close>

text \<open>
  A run: how the process ends and the calls it made on the store, or \<open>None\<close> when it
  never ends. \<open>Exit 0\<close> is \<^verbatim>\<open>sys.exit(0)\<close>, \<open>Raised\<close> an uncaught exception (a non-zero
  status), \<open>Finished\<close> the end of the script.
\<close>

definition run :: "pipeline \<Rightarrow> env \<Rightarrow> datetime \<Rightarrow> (outcome \<times> event list) option" where
  "run p e now =
     (case fetch_all e (commodities p) DataFrame of
        None \<Rightarrow> None
      | Some (Inl x) \<Rightarrow> Some (Raised x, [])
      | Some (Inr bigdata) \<Rightarrow>
          if empty_df bigdata then Some (Exit 0, [])
          else (case normalise p e bigdata of
                  Inl x \<Rightarrow> Some (Raised x, [])
                | Inr batch \<Rightarrow>
                    (case append_batch p e now batch of
                       (Some x, tr) \<Rightarrow> Some (Raised x, tr)
                     | (None, tr) \<Rightarrow> reconcile p e now tr)))"

section \<open>Auxiliary definitions and example inputs\<close>



text \<open>The rows \<open>drop_duplicates\<close> keeps, given the keys seen above them.\<close>

definition kept :: "('r \<Rightarrow> 'k) \<Rightarrow> 'k list \<Rightarrow> 'r list \<Rightarrow> 'r list" where
  "kept k seen rs = map fst (filter (\<lambda>(r, d). \<not> d) (zip rs (duplicated_from seen (map k rs))))"

text \<open>A fertilizer table read back with the same quote twice, told apart by a note.\<close>

definition dap_row :: "string \<Rightarrow> cell list" where
  "dap_row note =
     [Str ''Fertilizer'', Str ''DAP'', Str ''Nairobi'', Num (Finite 3500), Num (Finite 3700), Null,
      Str ''Nairobi'', Date 2024 3 5, Str note]"

definition read_back :: dataframe where
  "read_back =
     \<lparr>columns = [''commodity'', ''classification'', ''market'', ''wholesale'', ''retail'',
                 ''supply_volume'', ''county'', ''date'', ''note''],
      rows = [dap_row ''first'', dap_row ''second'']\<rparr>"

text \<open>
  An event list is unfailing when no call in it raised, a query that found no table
  aside.
\<close>

fun is_query :: "call \<Rightarrow> bool" where
  "is_query (Query q) = True"
| "is_query _ = False"

definition unfailing :: "event list \<Rightarrow> bool" where
  "unfailing tr = list_all (\<lambda>(c, r). r = None \<or> (r = Some NotFound \<and> is_query c)) tr"

text \<open>
  Example worlds. \<open>iso_dates\<close> reads the one date text the examples use. \<open>tables_store\<close>
  answers from a fixed list of tables, all rows of which are dated in the month a count
  asks for; it rejects an ordering by a column the table lacks. In \<open>world\<close> the store
  answers a statement whatever came before, every load is accepted and its job ends as
  \<open>result\<close> says, and the last job is done at once.
\<close>

text \<open>
  \<open>whole_numerals\<close> reads a numeral of at most 15 digits, alone or followed by a dot and
  zeros: a whole number that a double holds exactly. The examples use no other numeral.
\<close>

definition digit_val :: "char \<Rightarrow> nat" where
  "digit_val c = ord_of c - 48"

definition nat_of_digits :: "string \<Rightarrow> nat" where
  "nat_of_digits ds = foldl (\<lambda>a c. 10 * a + digit_val c) 0 ds"

definition whole_numerals :: "string \<Rightarrow> number option" where
  "whole_numerals m =
     (let whole = takeWhile isdigit m; rest = dropWhile isdigit m in
      if whole \<noteq> [] \<and> length whole \<le> 15
         \<and> (case rest of
               [] \<Rightarrow> True
             | c # zeros \<Rightarrow> c = CHR ''.'' \<and> list_all (\<lambda>z. z = CHR ''0'') zeros)
      then Some (Finite (of_nat (nat_of_digits whole))) else None)"

definition iso_dates :: "cell list \<Rightarrow> exn + cell list" where
  "iso_dates col = Inr (map (\<lambda>v. if v = Str ''2024-03-05'' then Date 2024 3 5 else v) col)"

definition tables_store :: "(table \<times> dataframe) list \<Rightarrow> statement \<Rightarrow> exn + dataframe" where
  "tables_store ts q =
     (case q of
        CountMonth t m y \<Rightarrow>
          (case map_of ts t of
             None \<Rightarrow> Inl NotFound
           | Some content \<Rightarrow>
               Inr \<lparr>columns = [''cnt''], rows = [[Num (Finite (of_nat (length (rows content))))]]\<rparr>)
      | SelectAll t ord \<Rightarrow>
          (case map_of ts t of
             None \<Rightarrow> Inl NotFound
           | Some content \<Rightarrow>
               (case ord of
                  None \<Rightarrow> Inr content
                | Some c \<Rightarrow> if c \<in> set (columns content) then Inr content else Inl BadRequest)))"

definition world ::
  "(nat \<Rightarrow> nat \<Rightarrow> exn + response) \<Rightarrow> (statement \<Rightarrow> exn + dataframe) \<Rightarrow> exn option \<Rightarrow> env" where
  "world site answer result =
     \<lparr>session_get = site, to_datetime = iso_dates, to_numeric = whole_numerals,
      query = (\<lambda>tr. answer),
      load_table_from_dataframe = (\<lambda>tr t df. None), job_result = (\<lambda>tr t df. result),
      delete_table = (\<lambda>tr t. None), create_table = (\<lambda>tr t sch. None),
      job_state = (\<lambda>n. ''DONE''), job_reload = (\<lambda>n. None)\<rparr>"

text \<open>
  Pages of one quote, as the site lays its table out: one of fertilizer, the same without
  the two columns fertilizer.py drops, and one of cattle.
\<close>

definition fertilizer_page :: dataframe where
  "fertilizer_page =
     \<lparr>columns = [''Commodity'', ''Classification'', ''Grade'', ''Sex'', ''Market'',
                 ''Wholesale'', ''Retail'', ''Supply Volume'', ''County'', ''Date''],
      rows = [[Str ''Fertilizer'', Str ''DAP'', Str ''-'', Str ''-'', Str ''Nairobi'',
               Str ''3500 Kshs'', Str ''3700 Kshs'', Null, Str ''Nairobi'',
               Str ''2024-03-05'']]\<rparr>"

definition short_page :: dataframe where
  "short_page =
     \<lparr>columns = [''Commodity'', ''Classification'', ''Market'', ''Wholesale'', ''Retail'',
                 ''Supply Volume'', ''County'', ''Date''],
      rows = [[Str ''Fertilizer'', Str ''DAP'', Str ''Nairobi'', Str ''3500 Kshs'',
               Str ''3700 Kshs'', Null, Str ''Nairobi'', Str ''2024-03-05'']]\<rparr>"

definition cattle_page :: dataframe where
  "cattle_page =
     \<lparr>columns = [''Commodity'', ''Classification'', ''Grade'', ''Sex'', ''Market'',
                 ''Wholesale'', ''Retail'', ''Supply Volume'', ''County'', ''Date''],
      rows = [[Str ''Cattle'', Str ''Zebu'', Str ''Large'', Str ''Bull'', Str ''Garissa'',
               Str ''45000 Kshs'', Str ''50000 Kshs'', Null, Str ''Garissa'',
               Str ''2024-03-05'']]\<rparr>"

text \<open>The batches the two scripts make of these pages.\<close>

definition fert_batch :: dataframe where
  "fert_batch =
     \<lparr>columns = [''commodity'', ''classification'', ''market'', ''wholesale'', ''retail'',
                 ''supply_volume'', ''county'', ''date''],
      rows = [[Str ''Fertilizer'', Str ''DAP'', Str ''Nairobi'', Num (Finite 3500), Num (Finite 3700), Null,
               Str ''Nairobi'', Date 2024 3 5]]\<rparr>"

definition cattle_batch :: dataframe where
  "cattle_batch =
     \<lparr>columns = [''commodity'', ''classification'', ''grade'', ''sex'', ''market'',
                 ''wholesale'', ''retail'', ''supply_volume'', ''county'', ''date''],
      rows = [[Str ''Cattle'', Str ''Zebu'', Str ''Large'', Str ''Bull'', Str ''Garissa'',
               Num (Finite 45000), Num (Finite 50000), Null, Str ''Garissa'', Date 2024 3 5]]\<rparr>"

text \<open>
  Sites: one that is down; one that serves a page at offset 0 of one commodity and
  answers every other request with status 200 and a text without a table.
\<close>

definition site_down :: "nat \<Rightarrow> nat \<Rightarrow> exn + response" where
  "site_down commodity offset = Inl ConnectionError"

definition one_page :: "nat \<Rightarrow> dataframe \<Rightarrow> nat \<Rightarrow> nat \<Rightarrow> exn + response" where
  "one_page item page commodity offset =
     (if commodity = item \<and> offset = 0 then Inr \<lparr>status_code = 200, html_tables = [page]\<rparr>
      else Inr \<lparr>status_code = 200, html_tables = []\<rparr>)"

definition march_1 :: datetime where
  "march_1 = \<lparr>year = 2024, month = 3, day = 1\<rparr>"

definition march_5 :: datetime where
  "march_5 = \<lparr>year = 2024, month = 3, day = 5\<rparr>"

section \<open>Cleaning column names\<close>

lemma ord_of_less: "ord_of c < 256"
  by (simp add: ord_of_def)

lemma ord_of_char_of: "ord_of (char_of n) = n mod 256"
  by (simp add: ord_of_def)

lemma lower_char_not_capital:
  "\<not> (65 \<le> ord_of (lower_char c) \<and> ord_of (lower_char c) \<le> 90)"
proof (cases "isupper c")
  case True
  then have "97 \<le> ord_of c + 32 \<and> ord_of c + 32 < 256"
    by (auto simp: isupper_def)
  then show ?thesis
    using True by (simp add: lower_char_def ord_of_char_of)
next
  case False
  then show ?thesis
    by (auto simp: lower_char_def isupper_def)
qed

lemma canonical_underscore: "canonical CHR ''_''"
  by (simp add: canonical_def ord_of_def)

lemma canonical_lower_char: "isword (lower_char x) \<Longrightarrow> canonical (lower_char x)"
  using lower_char_not_capital [of x] by (auto simp: canonical_def isword_def)

lemma clean_name_canonical: "c \<in> set (clean_name s) \<Longrightarrow> canonical c"
  by (auto simp: clean_name_def replace_nonword_def replace_space_def lower_def
      canonical_underscore canonical_lower_char)

lemma canonical_props:
  assumes "canonical c"
  shows "\<not> isspace c" and "\<not> isupper c" and "c \<noteq> CHR '' ''" and "isword c"
  using assms
  by (auto simp: canonical_def isspace_def isupper_def isword_def isdigit_def ord_of_def)

lemma dropWhile_none: "(\<forall>x\<in>set xs. \<not> P x) \<Longrightarrow> dropWhile P xs = xs"
  by (cases xs) auto

lemma strip_canonical: "(\<forall>c\<in>set t. canonical c) \<Longrightarrow> strip t = t"
  by (simp add: strip_def dropWhile_none canonical_props(1))

lemma lower_canonical: "(\<forall>c\<in>set t. canonical c) \<Longrightarrow> lower t = t"
  by (simp add: lower_def lower_char_def canonical_props(2) map_idI)

lemma replace_space_canonical: "(\<forall>c\<in>set t. canonical c) \<Longrightarrow> replace_space t = t"
  by (simp add: replace_space_def canonical_props(3) map_idI)

lemma replace_nonword_canonical: "(\<forall>c\<in>set t. canonical c) \<Longrightarrow> replace_nonword t = t"
  by (simp add: replace_nonword_def canonical_props(4))

lemma clean_name_fixes_canonical: "(\<forall>c\<in>set t. canonical c) \<Longrightarrow> clean_name t = t"
  by (simp add: clean_name_def strip_canonical lower_canonical replace_space_canonical
      replace_nonword_canonical)

text \<open>
  C10. The cleaning of a column name (strip, lower-case, spaces to underscores, drop every
  character outside \<^verbatim>\<open>[0-9a-zA-Z_]\<close>) is idempotent: a cleaned name is cleaned to
  itself.
\<close>

theorem clean_name_idempotent: "clean_name (clean_name s) = clean_name s"
  by (rule clean_name_fixes_canonical) (simp add: clean_name_canonical)

section \<open>Extracting prices\<close>













lemma price_column_raises:
  "\<not> list_ex is_text col \<Longrightarrow> price_column e col = Inl AttributeError"
  by (simp add: price_column_def str_accessor_def)





lemmas price_eval = price_cell_def str_extract_def numeric_cell_def match_here_def
  whole_numerals_def nat_of_digits_def digit_val_def isdigit_def ord_of_def



section \<open>Deduplication\<close>

lemma kept_Nil: "kept k seen [] = []"
  by (simp add: kept_def)

lemma kept_Cons:
  "kept k seen (r # rs) =
     (if k r \<in> set seen then kept k (k r # seen) rs else r # kept k (k r # seen) rs)"
  by (simp add: kept_def)

lemma kept_keys: "k ` set (kept k seen rs) = k ` set rs - set seen"
  by (induction rs arbitrary: seen) (auto simp: kept_Nil kept_Cons)

lemma kept_distinct: "distinct (map k (kept k seen rs))"
proof (induction rs arbitrary: seen)
  case Nil
  show ?case by (simp add: kept_Nil)
next
  case (Cons r rs)
  have "k r \<notin> k ` set (kept k (k r # seen) rs)"
    by (simp add: kept_keys)
  with Cons show ?case by (simp add: kept_Cons)
qed

lemma kept_subseq: "subseq (kept k seen rs) rs"
  by (induction rs arbitrary: seen) (auto simp: kept_Nil kept_Cons intro: subseq_Cons')

lemma kept_first: "r \<in> set (kept k seen rs) \<Longrightarrow> find (\<lambda>x. k x = k r) rs = Some r"
proof (induction rs arbitrary: seen)
  case Nil
  then show ?case by (simp add: kept_Nil)
next
  case (Cons a rs)
  show ?case
  proof (cases "r \<in> set (kept k (k a # seen) rs)")
    case True
    then have "k r \<in> k ` set (kept k (k a # seen) rs)" by blast
    then have "k r \<noteq> k a" by (simp add: kept_keys)
    with Cons.IH [OF True] show ?thesis by auto
  next
    case False
    with Cons.prems have "r = a" by (auto simp: kept_Cons split: if_splits)
    then show ?thesis by simp
  qed
qed

lemma drop_duplicates_rows:
  assumes "drop_duplicates keys df = Inr out"
  shows "columns out = columns df"
    and "rows out = kept (key_of (columns df) keys) [] (rows df)"
  using assms
  by (auto simp: drop_duplicates_def duplicated_def kept_def Let_def split: if_splits)

lemma drop_duplicates_defined:
  "set keys \<subseteq> set (columns df) \<Longrightarrow> \<exists>out. drop_duplicates keys df = Inr out"
  by (auto simp: drop_duplicates_def duplicated_def Let_def filter_empty_conv)

text \<open>
  C1. When the reconciliation pass deduplicates the rows it read back, the result has
  the columns of the input and is the input with rows left out (no row is changed or
  merged); its rows have pairwise distinct keys; every key of the input is the key of a
  row of the result; and each row of the result is the first row of the input, in read
  order, with its key. The key is the tuple of \<open>dedup_key\<close>: eight columns for
  fertilizer, the same with grade and sex for livestock.
\<close>

theorem drop_duplicates_first_occurrence:
  assumes "drop_duplicates (dedup_key p) data = Inr out"
  shows "columns out = columns data
       \<and> subseq (rows out) (rows data)
       \<and> distinct (map (key_of (columns data) (dedup_key p)) (rows out))
       \<and> key_of (columns data) (dedup_key p) ` set (rows out)
           = key_of (columns data) (dedup_key p) ` set (rows data)
       \<and> (\<forall>r\<in>set (rows out).
             find (\<lambda>x. key_of (columns data) (dedup_key p) x
                        = key_of (columns data) (dedup_key p) r) (rows data) = Some r)"
  using drop_duplicates_rows [OF assms]
  by (simp add: kept_subseq kept_distinct kept_keys kept_first)


lemma read_back_deduplicated:
  "drop_duplicates (dedup_key Fertilizer) read_back = Inr (read_back\<lparr>rows := [dap_row ''first'']\<rparr>)"
  by (simp add: drop_duplicates_def duplicated_def read_back_def dap_row_def key_of_def
      cell_at_def)

theorem drop_duplicates_first_occurrence_witness:
  "drop_duplicates (dedup_key Fertilizer) read_back = Inr (read_back\<lparr>rows := [dap_row ''first'']\<rparr>)
   \<and> key_of (columns read_back) (dedup_key Fertilizer) (dap_row ''second'')
       = key_of (columns read_back) (dedup_key Fertilizer) (dap_row ''first'')
   \<and> find (\<lambda>x. key_of (columns read_back) (dedup_key Fertilizer) x
                = key_of (columns read_back) (dedup_key Fertilizer) (dap_row ''first''))
           (rows read_back) = Some (dap_row ''first'')
   \<and> distinct (map (key_of (columns read_back) (dedup_key Fertilizer)) [dap_row ''first''])"
proof -
  have k: "key_of (columns read_back) (dedup_key Fertilizer) (dap_row ''second'')
       = key_of (columns read_back) (dedup_key Fertilizer) (dap_row ''first'')"
    by (simp add: read_back_def dap_row_def key_of_def cell_at_def)
  from drop_duplicates_first_occurrence [OF read_back_deduplicated]
  have f: "find (\<lambda>x. key_of (columns read_back) (dedup_key Fertilizer) x
                = key_of (columns read_back) (dedup_key Fertilizer) (dap_row ''first''))
           (rows read_back) = Some (dap_row ''first'')"
    and d: "distinct (map (key_of (columns read_back) (dedup_key Fertilizer)) [dap_row ''first''])"
    by simp_all
  from read_back_deduplicated k f d show ?thesis by blast
qed

section \<open>Evaluating the examples\<close>

lemmas clean_eval = clean_names_def clean_name_def strip_def lower_def lower_char_def
  replace_space_def replace_nonword_def isspace_def isupper_def isword_def isdigit_def
  ord_of_def char_of_eq_iff

lemmas frame_eval = concat_df_def DataFrame_def reindex_def cell_at_def

lemmas fetch_eval = paginate.simps try_page_def world_def one_page_def read_html_def

lemmas norm_eval = normalise_def standardize_def convert_date_def convert_price_def
  price_column_def the_column_def column_values_def cell_at_def setitem_def str_accessor_def drop_columns_def
  iso_dates_def

lemmas call_eval = call_query_def call_load_def call_submit_def call_delete_def
  call_create_def load_outcome_def Let_def

lemmas append_eval = append_batch_def has_current_month_data_def first_of_month_load_def
  cnt_positive_def check_sql_def table_id_def prev_table_id_def cell_at_def

lemmas dedup_eval = drop_duplicates_def duplicated_def key_of_def cell_at_def

lemma fetch_fertilizer:
  "fetch_all (world (one_page 217 page) ans res) (commodities Fertilizer) DataFrame
   = Some (Inr (concat_df DataFrame page))"
  by (simp add: fetch_eval)

lemma fetch_livestock:
  "fetch_all (world (one_page 140 page) ans res) (commodities Livestock) DataFrame
   = Some (Inr (concat_df DataFrame page))"
  by (simp add: fetch_eval)

lemma fertilizer_page_fetched: "concat_df DataFrame fertilizer_page = fertilizer_page"
  by (simp add: frame_eval fertilizer_page_def)

lemma short_page_fetched: "concat_df DataFrame short_page = short_page"
  by (simp add: frame_eval short_page_def)

lemma cattle_page_fetched: "concat_df DataFrame cattle_page = cattle_page"
  by (simp add: frame_eval cattle_page_def)

lemma fertilizer_page_clean:
  "clean_names fertilizer_page = fertilizer_page\<lparr>columns := dedup_key Livestock\<rparr>"
  by (simp add: fertilizer_page_def clean_eval)

lemma short_page_clean: "clean_names short_page = short_page\<lparr>columns := dedup_key Fertilizer\<rparr>"
  by (simp add: short_page_def clean_eval)

lemma cattle_page_clean:
  "clean_names cattle_page = cattle_page\<lparr>columns := dedup_key Livestock\<rparr>"
  by (simp add: cattle_page_def clean_eval)

lemma normalise_fertilizer_page:
  "normalise Fertilizer (world site ans res) fertilizer_page = Inr fert_batch"
  unfolding normalise_def fertilizer_page_clean
  by (simp add: norm_eval world_def fertilizer_page_def fert_batch_def price_eval)

lemma normalise_cattle_page:
  "normalise Livestock (world site ans res) cattle_page = Inr cattle_batch"
  unfolding normalise_def cattle_page_clean
  by (simp add: norm_eval world_def cattle_page_def cattle_batch_def price_eval)

lemma standardize_short_page:
  "standardize (world site ans res) (clean_names short_page) = Inr fert_batch"
  unfolding short_page_clean
  by (simp add: norm_eval world_def short_page_def fert_batch_def price_eval)

section \<open>Fetching\<close>

lemma try_page_nonempty: "try_page e c off \<noteq> Inr []"
  by (auto simp: try_page_def read_html_def split: sum.splits)

lemma try_page_no_table:
  "session_get e c off = Inr r \<Longrightarrow> html_tables r = [] \<Longrightarrow> try_page e c off = Inl ValueError"
  by (simp add: try_page_def read_html_def)

lemma try_page_request_failed:
  "session_get e c off = Inl x \<Longrightarrow> try_page e c off = Inl x"
  by (simp add: try_page_def)

lemma paginate_break:
  "try_page e c off = Inl x \<Longrightarrow> paginate e c off bigdata = Some (Inr bigdata)"
  by (subst paginate.simps) simp

lemma paginate_next:
  "try_page e c off = Inr (first # rest) \<Longrightarrow>
   paginate e c off bigdata = paginate e c (off + 3000) (concat_df bigdata first)"
  by (subst paginate.simps) simp

lemma upt_Suc_map: "[0..<Suc n] = 0 # map Suc [0..<n]"
  by (simp add: upt_conv_Cons map_Suc_upt del: upt_Suc)

lemma paginate_pages:
  assumes "\<forall>k<n. try_page e c (off + 3000 * k) = Inr (first k # rest k)"
    and "try_page e c (off + 3000 * n) = Inl x"
  shows "paginate e c off bigdata = Some (Inr (foldl concat_df bigdata (map first [0..<n])))"
  using assms
proof (induction n arbitrary: off bigdata first rest)
  case 0
  then show ?case by (simp add: paginate_break)
next
  case (Suc n)
  from Suc.prems(1) have p0: "try_page e c off = Inr (first 0 # rest 0)"
    by (metis add.right_neutral mult_zero_right zero_less_Suc)
  have later: "\<forall>k<n. try_page e c (off + 3000 + 3000 * k) = Inr ((first \<circ> Suc) k # (rest \<circ> Suc) k)"
  proof (intro allI impI)
    fix k assume "k < n"
    then have "Suc k < Suc n" by simp
    with Suc.prems(1) have "try_page e c (off + 3000 * Suc k) = Inr (first (Suc k) # rest (Suc k))"
      by blast
    then show "try_page e c (off + 3000 + 3000 * k) = Inr ((first \<circ> Suc) k # (rest \<circ> Suc) k)"
      by (simp add: add.assoc)
  qed
  from Suc.prems(2) have last: "try_page e c (off + 3000 + 3000 * n) = Inl x"
    by (simp add: add.assoc)
  have "paginate e c off bigdata = paginate e c (off + 3000) (concat_df bigdata (first 0))"
    by (rule paginate_next [OF p0])
  also have "\<dots> = Some (Inr (foldl concat_df (concat_df bigdata (first 0))
                              (map (first \<circ> Suc) [0..<n])))"
    by (rule Suc.IH [OF later last])
  also have "foldl concat_df (concat_df bigdata (first 0)) (map (first \<circ> Suc) [0..<n])
           = foldl concat_df bigdata (map first [0..<Suc n])"
    by (simp only: upt_Suc_map list.map foldl.simps map_map)
  finally show ?case .
qed

text \<open>
  C8. When the pages of a commodity at offsets 0, 3000, ... parse and the request or the
  parse of the next page raises (the request itself, or a response whose text holds no
  table, whatever its status), the loop of that commodity ends with all that was
  accumulated before it and those pages, and the run goes on with the next commodity.
\<close>

theorem paginate_stops_on_exception:
  assumes "\<forall>k<n. try_page e c (3000 * k) = Inr (first k # rest k)"
    and "(\<exists>x. session_get e c (3000 * n) = Inl x)
         \<or> (\<exists>r. session_get e c (3000 * n) = Inr r \<and> html_tables r = [])"
  shows "paginate e c 0 bigdata = Some (Inr (foldl concat_df bigdata (map first [0..<n])))
       \<and> fetch_all e (c # items) bigdata
           = fetch_all e items (foldl concat_df bigdata (map first [0..<n]))"
proof -
  from assms(2) obtain x where "try_page e c (0 + 3000 * n) = Inl x"
    using try_page_no_table try_page_request_failed by fastforce
  with assms(1) have "paginate e c 0 bigdata
                      = Some (Inr (foldl concat_df bigdata (map first [0..<n])))"
    using paginate_pages [of n e c 0 first rest x bigdata] by simp
  then show ?thesis by simp
qed

theorem paginate_stops_on_exception_witness:
  "try_page (world (one_page 217 fertilizer_page) (tables_store []) None) 217 0 = Inr [fertilizer_page]
   \<and> session_get (world (one_page 217 fertilizer_page) (tables_store []) None) 217 3000
       = Inr \<lparr>status_code = 200, html_tables = []\<rparr>
   \<and> paginate (world (one_page 217 fertilizer_page) (tables_store []) None) 217 0 DataFrame
       = Some (Inr (concat_df DataFrame fertilizer_page))
   \<and> fetch_all (world (one_page 217 fertilizer_page) (tables_store []) None)
         (commodities Fertilizer) DataFrame
       = Some (Inr (concat_df DataFrame fertilizer_page))"
proof -
  let ?W = "world (one_page 217 fertilizer_page) (tables_store []) None"
  have p0: "try_page ?W 217 0 = Inr [fertilizer_page]"
    by (simp add: try_page_def world_def one_page_def read_html_def)
  have p1: "session_get ?W 217 3000 = Inr \<lparr>status_code = 200, html_tables = []\<rparr>"
    by (simp add: world_def one_page_def)
  have pages: "\<forall>k<1. try_page ?W 217 (3000 * k) = Inr ((\<lambda>k. fertilizer_page) k # (\<lambda>k. []) k)"
    using p0 by simp
  have stop: "(\<exists>x. session_get ?W 217 (3000 * 1) = Inl x)
       \<or> (\<exists>r. session_get ?W 217 (3000 * 1) = Inr r \<and> html_tables r = [])"
    using p1 by simp
  from paginate_stops_on_exception [OF pages stop, of DataFrame "[]"] p0 p1
  show ?thesis by simp
qed

lemma paginate_returns_frame:
  assumes "paginate e c off bigdata = Some r"
  shows "\<exists>d. r = Inr d"
proof (rule paginate.raw_induct [where P = "\<lambda>e c off bigdata r. \<exists>d. r = Inr d", OF _ assms])
  fix again :: "env \<Rightarrow> nat \<Rightarrow> nat \<Rightarrow> dataframe \<Rightarrow> (exn + dataframe) option"
    and e c off bigdata and r :: "exn + dataframe"
  assume IH: "\<And>e c off bigdata r. again e c off bigdata = Some r \<Longrightarrow> \<exists>d. r = Inr d"
  assume body:
    "(case try_page e c off of
        Inl x \<Rightarrow> Some (Inr bigdata)
      | Inr market_prices \<Rightarrow>
          (case market_prices of
             [] \<Rightarrow> Some (Inl IndexError)
           | first # _ \<Rightarrow> again e c (off + 3000) (concat_df bigdata first))) = Some r"
  have "try_page e c off \<noteq> Inr []" by (rule try_page_nonempty)
  with body IH show "\<exists>d. r = Inr d"
    by (auto split: sum.splits list.splits)
qed

lemma fetch_all_returns_frame:
  "fetch_all e items bigdata = Some r \<Longrightarrow> \<exists>d. r = Inr d"
proof (induction items arbitrary: bigdata)
  case Nil
  then show ?case by auto
next
  case (Cons c items)
  then show ?case
    by (auto split: option.splits sum.splits dest: paginate_returns_frame)
qed

lemma rows_concat_df:
  "length (rows (concat_df a b)) = length (rows a) + length (rows b)"
  by (simp add: concat_df_def Let_def)

text \<open>
  C4. A run that fetches no row exits with status 0 and makes no call on the store.
\<close>

theorem empty_batch_exits:
  assumes "fetch_all e (commodities p) DataFrame = Some (Inr bigdata)"
    and "rows bigdata = []"
  shows "run p e now = Some (Exit 0, [])"
  using assms by (simp add: run_def empty_df_def)

lemma fetch_down: "fetch_all (world site_down ans res) items DataFrame = Some (Inr DataFrame)"
  by (induction items)
     (simp_all add: paginate_break try_page_def world_def site_down_def)

theorem empty_batch_exits_witness:
  "rows DataFrame = [] \<and> run Livestock (world site_down (tables_store []) None)
        march_5 = Some (Exit 0, [])"
  using empty_batch_exits [OF fetch_down, of Livestock "tables_store []" None]
  by (simp add: DataFrame_def)

section \<open>Normalising\<close>

lemma setitem_columns: "setitem df c vals = Inr d \<Longrightarrow> columns d = columns df"
  by (auto simp: setitem_def split: if_splits)

lemma convert_date_columns: "convert_date e df = Inr d \<Longrightarrow> columns d = columns df"
  by (auto simp: convert_date_def split: sum.splits dest: setitem_columns)

lemma convert_price_columns: "convert_price e df c = Inr d \<Longrightarrow> columns d = columns df"
  by (auto simp: convert_price_def split: sum.splits dest: setitem_columns)

lemma standardize_columns: "standardize e df = Inr d \<Longrightarrow> columns d = columns df"
  by (auto simp: standardize_def split: sum.splits
      dest!: convert_date_columns convert_price_columns)

lemma drop_columns_missing:
  "\<not> set labels \<subseteq> set (columns df) \<Longrightarrow>
   drop_columns labels df = Inl (KeyError (filter (\<lambda>c. c \<notin> set (columns df)) labels))"
  by (auto simp: drop_columns_def Let_def filter_empty_conv)

lemma normalise_fertilizer_fails:
  assumes "\<not> {''grade'', ''sex''} \<subseteq> set (map clean_name (columns bigdata))"
  shows "(\<exists>x. normalise Fertilizer e bigdata = Inl x)
       \<and> (\<forall>r. standardize e (clean_names bigdata) = Inr r \<longrightarrow>
              normalise Fertilizer e bigdata
              = Inl (KeyError (filter (\<lambda>c. c \<notin> set (map clean_name (columns bigdata)))
                                      [''grade'', ''sex''])))"
proof (cases "standardize e (clean_names bigdata)")
  case (Inl x)
  then show ?thesis by (simp add: normalise_def)
next
  case (Inr r)
  then have "columns r = map clean_name (columns bigdata)"
    by (auto dest: standardize_columns simp: clean_names_def)
  with assms have "\<not> set [''grade'', ''sex''] \<subseteq> set (columns r)"
    and "filter (\<lambda>c. c \<notin> set (columns r)) [''grade'', ''sex'']
         = filter (\<lambda>c. c \<notin> set (map clean_name (columns bigdata))) [''grade'', ''sex'']"
    by simp_all
  with drop_columns_missing [of "[''grade'', ''sex'']" r] Inr show ?thesis
    by (simp add: normalise_def)
qed

text \<open>
  C9. In the fertilizer pipeline a fetched batch that is not empty and whose cleaned
  column names lack \<^verbatim>\<open>grade\<close> or \<^verbatim>\<open>sex\<close> ends the run with an uncaught exception
  before any call on the store. When the three conversions before it succeed, the
  exception is the \<^verbatim>\<open>KeyError\<close> of the column drop, naming the labels that are missing.
\<close>

theorem fertilizer_without_grade_sex_fails:
  assumes "fetch_all e (commodities Fertilizer) DataFrame = Some (Inr bigdata)"
    and "\<not> empty_df bigdata"
    and "\<not> {''grade'', ''sex''} \<subseteq> set (map clean_name (columns bigdata))"
  shows "(\<exists>x. run Fertilizer e now = Some (Raised x, []))
       \<and> (\<forall>r. standardize e (clean_names bigdata) = Inr r \<longrightarrow>
              run Fertilizer e now
              = Some (Raised (KeyError (filter (\<lambda>c. c \<notin> set (map clean_name (columns bigdata)))
                                               [''grade'', ''sex''])), []))"
proof -
  from normalise_fertilizer_fails [OF assms(3), of e]
  obtain x where x: "normalise Fertilizer e bigdata = Inl x"
    and k: "\<forall>r. standardize e (clean_names bigdata) = Inr r \<longrightarrow>
              normalise Fertilizer e bigdata
              = Inl (KeyError (filter (\<lambda>c. c \<notin> set (map clean_name (columns bigdata)))
                                      [''grade'', ''sex'']))"
    by blast
  have r: "\<And>y. normalise Fertilizer e bigdata = Inl y \<Longrightarrow> run Fertilizer e now = Some (Raised y, [])"
    using assms(1,2) by (simp add: run_def)
  from r [OF x] k r show ?thesis by blast
qed

theorem fertilizer_without_grade_sex_fails_witness:
  "fetch_all (world (one_page 217 short_page) (tables_store []) None)
     (commodities Fertilizer) DataFrame = Some (Inr short_page)
   \<and> \<not> empty_df short_page
   \<and> \<not> {''grade'', ''sex''} \<subseteq> set (map clean_name (columns short_page))
   \<and> run Fertilizer (world (one_page 217 short_page) (tables_store []) None) march_5
       = Some (Raised (KeyError [''grade'', ''sex'']), [])"
proof -
  let ?W = "world (one_page 217 short_page) (tables_store []) None"
  have f: "fetch_all ?W (commodities Fertilizer) DataFrame = Some (Inr short_page)"
    using fetch_fertilizer [of short_page] by (simp only: short_page_fetched)
  have n: "\<not> empty_df short_page" by (simp add: empty_df_def short_page_def)
  have c: "map clean_name (columns short_page) = dedup_key Fertilizer"
    using short_page_clean by (simp add: clean_names_def short_page_def)
  have m: "\<not> {''grade'', ''sex''} \<subseteq> set (map clean_name (columns short_page))"
    unfolding c by simp
  from fertilizer_without_grade_sex_fails [OF f n m, of march_5] standardize_short_page
  have "run Fertilizer ?W march_5
        = Some (Raised (KeyError (filter (\<lambda>c. c \<notin> set (map clean_name (columns short_page)))
                                         [''grade'', ''sex''])), [])"
    by blast
  then have "run Fertilizer ?W march_5 = Some (Raised (KeyError [''grade'', ''sex'']), [])"
    unfolding c by simp
  with f n m show ?thesis by blast
qed

section \<open>Appending\<close>

lemma run_after_fetch:
  assumes "fetch_all e (commodities p) DataFrame = Some (Inr bigdata)"
    and "\<not> empty_df bigdata"
    and "normalise p e bigdata = Inr batch"
  shows "run p e now =
           (case append_batch p e now batch of
              (Some x, tr) \<Rightarrow> Some (Raised x, tr)
            | (None, tr) \<Rightarrow> reconcile p e now tr)"
  using assms by (simp add: run_def)

lemma append_batch_later_day:
  "day now \<noteq> 1 \<Longrightarrow>
   append_batch p e now batch
   = (load_outcome e [] (table_id p now) batch,
      [(Load (table_id p now) batch, load_outcome e [] (table_id p now) batch)])"
  by (simp add: append_batch_def call_load_def Let_def)

lemma first_of_month_load_cases:
  "(\<exists>x. x \<noteq> NotFound \<and> query e tr0 (prev_sql p now) = Inl x
        \<and> first_of_month_load p e now batch tr0 = tr0 @ [(Query (prev_sql p now), Some x)])
   \<or> (\<exists>r. query e tr0 (prev_sql p now) = Inl NotFound
        \<and> first_of_month_load p e now batch tr0
            = tr0 @ [(Query (prev_sql p now), Some NotFound), (Load (table_id p now) batch, r)])
   \<or> (\<exists>prev r. query e tr0 (prev_sql p now) = Inr prev
        \<and> first_of_month_load p e now batch tr0
            = tr0 @ [(Query (prev_sql p now), None),
                     (Load (table_id p now) (concat_df prev batch), r)])"
  by (cases "query e tr0 (prev_sql p now)")
     (auto simp: first_of_month_load_def call_query_def call_load_def Let_def)

lemma has_current_month_data_trace:
  "has_current_month_data e now [] = (r, tr) \<Longrightarrow>
   \<exists>x. tr = [(Query (check_sql Fertilizer now), x)]"
  by (auto simp: has_current_month_data_def call_query_def Let_def split: sum.splits)

lemma has_current_month_data_unfailing:
  "has_current_month_data e now [] = (Inr True, tr) \<Longrightarrow>
   tr = [(Query (check_sql Fertilizer now), None)]"
  by (auto simp: has_current_month_data_def call_query_def Let_def split: sum.splits if_splits)

lemma append_batch_first_day_livestock:
  "day now = 1 \<Longrightarrow>
   append_batch Livestock e now batch = (None, first_of_month_load Livestock e now batch [])"
  by (simp add: append_batch_def)

lemma append_batch_first_day_fertilizer:
  "day now = 1 \<Longrightarrow>
   append_batch Fertilizer e now batch =
     (case has_current_month_data e now [] of
        (Inl x, tr) \<Rightarrow> (Some x, tr)
      | (Inr has, tr) \<Rightarrow>
          (None, if \<not> has then first_of_month_load Fertilizer e now batch tr else tr))"
  by (simp add: append_batch_def)

lemma unfailing_load_last:
  assumes "unfailing (first_of_month_load p e now batch tr0)"
  shows "\<exists>before merged.
           first_of_month_load p e now batch tr0 = before @ [(Load (table_id p now) merged, None)]
         \<and> (merged = batch \<and> (Query (prev_sql p now), Some NotFound)
                                 \<in> set (first_of_month_load p e now batch tr0)
            \<or> (\<exists>prev. query e tr0 (prev_sql p now) = Inr prev \<and> merged = concat_df prev batch))"
proof -
  consider
    (failed) x where "x \<noteq> NotFound"
      "first_of_month_load p e now batch tr0 = tr0 @ [(Query (prev_sql p now), Some x)]"
  | (absent) r where
      "first_of_month_load p e now batch tr0
         = tr0 @ [(Query (prev_sql p now), Some NotFound), (Load (table_id p now) batch, r)]"
  | (read) prev r where "query e tr0 (prev_sql p now) = Inr prev"
      "first_of_month_load p e now batch tr0
         = tr0 @ [(Query (prev_sql p now), None),
                  (Load (table_id p now) (concat_df prev batch), r)]"
    using first_of_month_load_cases [of e tr0 p now batch] by blast
  then show ?thesis
  proof cases
    case failed
    with assms show ?thesis by (simp add: unfailing_def)
  next
    case absent
    with assms have "r = None" by (simp add: unfailing_def)
    with absent show ?thesis
      by (intro exI [of _ "tr0 @ [(Query (prev_sql p now), Some NotFound)]"] exI [of _ batch]) simp
  next
    case read
    with assms have "r = None" by (simp add: unfailing_def)
    with read show ?thesis
      by (intro exI [of _ "tr0 @ [(Query (prev_sql p now), None)]"]
                exI [of _ "concat_df prev batch"]) simp
  qed
qed

text \<open>
  C2, as amended. Take a run whose batch is not empty and which goes on to the
  reconciliation pass. When the day is not the first of the month, the one call before
  the pass is the load of the batch, and it succeeded. On the first of the month, when no
  call before the pass failed (a table that was not found aside) and, in the fertilizer
  pipeline, the current table held no row of the current month, the last call before the
  pass is a load that succeeded: of the batch when the previous table was not found, of
  the previous rows followed by the batch when it was read. In the fertilizer pipeline on
  the first of the month, when the current table already holds rows of the current
  month, the count is the only call before the pass: nothing is appended.
\<close>

theorem batch_appended_before_reconcile:
  assumes "fetch_all e (commodities p) DataFrame = Some (Inr bigdata)"
    and "\<not> empty_df bigdata"
    and "normalise p e bigdata = Inr batch"
    and "append_batch p e now batch = (None, tr)"
  shows "run p e now = reconcile p e now tr
       \<and> (day now \<noteq> 1 \<longrightarrow> tr = [(Load (table_id p now) batch, None)])
       \<and> (day now = 1 \<longrightarrow> unfailing tr \<longrightarrow>
            (p = Fertilizer \<longrightarrow> fst (has_current_month_data e now []) = Inr False) \<longrightarrow>
            (\<exists>before merged.
                tr = before @ [(Load (table_id p now) merged, None)]
              \<and> (merged = batch \<and> (Query (prev_sql p now), Some NotFound) \<in> set tr
                 \<or> (\<exists>tr0 prev. query e tr0 (prev_sql p now) = Inr prev
                               \<and> merged = concat_df prev batch))))
       \<and> (day now = 1 \<longrightarrow> p = Fertilizer \<longrightarrow>
            fst (has_current_month_data e now []) = Inr True \<longrightarrow>
            tr = [(Query (check_sql Fertilizer now), None)])"
proof (intro conjI impI)
  show "run p e now = reconcile p e now tr"
    using run_after_fetch [OF assms(1-3), of now] assms(4) by simp
next
  assume "day now \<noteq> 1"
  with assms(4) show "tr = [(Load (table_id p now) batch, None)]"
    by (auto simp: append_batch_later_day)
next
  assume d: "day now = 1" and u: "unfailing tr"
    and g: "p = Fertilizer \<longrightarrow> fst (has_current_month_data e now []) = Inr False"
  have "\<exists>tr0. tr = first_of_month_load p e now batch tr0"
  proof (cases p)
    case Livestock
    with d assms(4) show ?thesis by (auto simp: append_batch_first_day_livestock)
  next
    case Fertilizer
    with g obtain tr0 where "has_current_month_data e now [] = (Inr False, tr0)"
      by (cases "has_current_month_data e now []") auto
    with d assms(4) Fertilizer show ?thesis
      by (auto simp: append_batch_first_day_fertilizer)
  qed
  then obtain tr0 where tr: "tr = first_of_month_load p e now batch tr0" ..
  from unfailing_load_last [of p e now batch tr0] u tr
  show "\<exists>before merged.
          tr = before @ [(Load (table_id p now) merged, None)]
        \<and> (merged = batch \<and> (Query (prev_sql p now), Some NotFound) \<in> set tr
           \<or> (\<exists>tr0 prev. query e tr0 (prev_sql p now) = Inr prev
                         \<and> merged = concat_df prev batch))"
    by blast
next
  assume d: "day now = 1" and f: "p = Fertilizer"
    and h: "fst (has_current_month_data e now []) = Inr True"
  from h obtain tr0 where h': "has_current_month_data e now [] = (Inr True, tr0)"
    by (cases "has_current_month_data e now []") auto
  with d f assms(4) have "tr = tr0" by (simp add: append_batch_first_day_fertilizer)
  with has_current_month_data_unfailing [OF h']
  show "tr = [(Query (check_sql Fertilizer now), None)]" by simp
qed

text \<open>
  C2 as stated fails on the first of the month in the fertilizer pipeline, when the
  current table already holds a row of the current month: the batch is not empty, the run
  reaches the read of the reconciliation pass, and no load came before it.
\<close>

theorem guarded_run_appends_nothing:
  "normalise Fertilizer
     (world (one_page 217 fertilizer_page) (tables_store [((''fertilizer'', 2024, 3), fert_batch)]) None)
     fertilizer_page = Inr fert_batch
   \<and> rows fert_batch \<noteq> []
   \<and> append_batch Fertilizer
       (world (one_page 217 fertilizer_page) (tables_store [((''fertilizer'', 2024, 3), fert_batch)]) None)
       march_1 fert_batch
     = (None, [(Query (CountMonth (''fertilizer'', 2024, 3) 3 2024), None)])
   \<and> run Fertilizer
       (world (one_page 217 fertilizer_page) (tables_store [((''fertilizer'', 2024, 3), fert_batch)]) None)
       march_1
     = Some (Raised BadRequest,
             [(Query (CountMonth (''fertilizer'', 2024, 3) 3 2024), None),
              (Query (SelectAll (''fertilizer'', 2024, 3) (Some ''start_date'')),
               Some BadRequest)])"
proof -
  let ?W = "world (one_page 217 fertilizer_page) (tables_store [((''fertilizer'', 2024, 3), fert_batch)]) None"
  have a: "append_batch Fertilizer ?W march_1 fert_batch
           = (None, [(Query (CountMonth (''fertilizer'', 2024, 3) 3 2024), None)])"
    by (simp add: append_eval call_eval world_def tables_store_def march_1_def fert_batch_def)
  have r: "reconcile Fertilizer ?W march_1 [(Query (CountMonth (''fertilizer'', 2024, 3) 3 2024), None)]
           = Some (Raised BadRequest,
             [(Query (CountMonth (''fertilizer'', 2024, 3) 3 2024), None),
              (Query (SelectAll (''fertilizer'', 2024, 3) (Some ''start_date'')),
               Some BadRequest)])"
    by (simp add: reconcile_def call_eval world_def tables_store_def march_1_def fert_batch_def
        table_id_def)
  have n: "\<not> empty_df fertilizer_page" by (simp add: empty_df_def fertilizer_page_def)
  have f: "fetch_all ?W (commodities Fertilizer) DataFrame = Some (Inr fertilizer_page)"
    using fetch_fertilizer [of fertilizer_page] by (simp only: fertilizer_page_fetched)
  from run_after_fetch [OF f n normalise_fertilizer_page, of march_1] a r
  show ?thesis by (simp add: normalise_fertilizer_page fert_batch_def)
qed


theorem batch_appended_before_reconcile_witness:
  "fetch_all
     (world (one_page 140 cattle_page)
        (tables_store [((''livestock'', 2024, 2), cattle_batch)]) None)
     (commodities Livestock) DataFrame = Some (Inr cattle_page)
   \<and> \<not> empty_df cattle_page
   \<and> append_batch Livestock
       (world (one_page 140 cattle_page)
          (tables_store [((''livestock'', 2024, 2), cattle_batch)]) None)
       march_1 cattle_batch
     = (None, [(Query (SelectAll (''livestock'', 2024, 2) None), None),
               (Load (''livestock'', 2024, 3) (concat_df cattle_batch cattle_batch), None)])
   \<and> day march_1 = 1
   \<and> unfailing [(Query (SelectAll (''livestock'', 2024, 2) None), None),
                 (Load (''livestock'', 2024, 3) (concat_df cattle_batch cattle_batch), None)]
   \<and> run Livestock
       (world (one_page 140 cattle_page)
          (tables_store [((''livestock'', 2024, 2), cattle_batch)]) None)
       march_1
     = reconcile Livestock
         (world (one_page 140 cattle_page)
            (tables_store [((''livestock'', 2024, 2), cattle_batch)]) None)
         march_1
         [(Query (SelectAll (''livestock'', 2024, 2) None), None),
          (Load (''livestock'', 2024, 3) (concat_df cattle_batch cattle_batch), None)]"
proof -
  let ?W = "world (one_page 140 cattle_page)
              (tables_store [((''livestock'', 2024, 2), cattle_batch)]) None"
  let ?tr = "[(Query (SelectAll (''livestock'', 2024, 2) None), None),
              (Load (''livestock'', 2024, 3) (concat_df cattle_batch cattle_batch), None)]"
  have f: "fetch_all ?W (commodities Livestock) DataFrame = Some (Inr cattle_page)"
    using fetch_livestock [of cattle_page] by (simp only: cattle_page_fetched)
  have n: "\<not> empty_df cattle_page" by (simp add: empty_df_def cattle_page_def)
  have a: "append_batch Livestock ?W march_1 cattle_batch = (None, ?tr)"
    by (simp add: append_eval call_eval world_def tables_store_def march_1_def)
  have d: "day march_1 = 1" by (simp add: march_1_def)
  have u: "unfailing ?tr" by (simp add: unfailing_def)
  from batch_appended_before_reconcile [OF f n normalise_cattle_page a]
  have "run Livestock ?W march_1 = reconcile Livestock ?W march_1 ?tr" by blast
  with f n a d u show ?thesis by blast
qed

lemma append_batch_first_day_raises:
  assumes "day now = 1" and "append_batch p e now batch = (Some x, tr)"
  shows "\<exists>y. tr = [(Query (check_sql Fertilizer now), y)]"
proof (cases p)
  case Livestock
  with assms show ?thesis by (simp add: append_batch_first_day_livestock)
next
  case Fertilizer
  obtain r tr0 where h: "has_current_month_data e now [] = (r, tr0)"
    by (cases "has_current_month_data e now []")
  with assms Fertilizer have "tr = tr0"
    by (cases r) (auto simp: append_batch_first_day_fertilizer)
  with has_current_month_data_trace [OF h] show ?thesis by simp
qed

text \<open>
  C3, as amended. On a day that is not the first of the month, a failed append of the
  batch ends the run with that exception, the failed load being its only call on the
  store. On the first of the month a load that failed never ends the run: the exception
  is caught and the run goes on to the reconciliation pass.
\<close>

theorem failed_append_fatal_after_first_day:
  assumes "fetch_all e (commodities p) DataFrame = Some (Inr bigdata)"
    and "\<not> empty_df bigdata"
    and "normalise p e bigdata = Inr batch"
  shows "(day now \<noteq> 1 \<longrightarrow>
            (\<forall>x. load_outcome e [] (table_id p now) batch = Some x \<longrightarrow>
                 run p e now = Some (Raised x, [(Load (table_id p now) batch, Some x)])))
       \<and> (day now = 1 \<longrightarrow>
            (\<forall>r tr merged x.
                append_batch p e now batch = (r, tr) \<longrightarrow>
                (Load (table_id p now) merged, Some x) \<in> set tr \<longrightarrow>
                r = None \<and> run p e now = reconcile p e now tr))"
proof (intro conjI impI allI)
  fix x
  assume "day now \<noteq> 1" and "load_outcome e [] (table_id p now) batch = Some x"
  then show "run p e now = Some (Raised x, [(Load (table_id p now) batch, Some x)])"
    using run_after_fetch [OF assms, of now] by (simp add: append_batch_later_day)
next
  fix r tr merged x
  assume d: "day now = 1" and a: "append_batch p e now batch = (r, tr)"
    and l: "(Load (table_id p now) merged, Some x) \<in> set tr"
  show "r = None"
  proof (cases r)
    case (Some y)
    with append_batch_first_day_raises [OF d, of p e batch y tr] a l show ?thesis by auto
  qed simp
  with a show "run p e now = reconcile p e now tr"
    using run_after_fetch [OF assms, of now] by simp
qed

text \<open>
  C3 as stated fails on the first of the month: in the livestock pipeline the load of the
  batch fails, and the run reads, deletes, recreates and reloads the table all the same
  and ends without an exception.
\<close>

theorem first_day_failed_append_goes_on:
  "load_outcome
     (world (one_page 140 cattle_page) (tables_store [((''livestock'', 2024, 3), cattle_batch)])
        (Some ServiceUnavailable))
     [(Query (SelectAll (''livestock'', 2024, 2) None), Some NotFound)]
     (''livestock'', 2024, 3) cattle_batch = Some ServiceUnavailable
   \<and> run Livestock
       (world (one_page 140 cattle_page) (tables_store [((''livestock'', 2024, 3), cattle_batch)])
          (Some ServiceUnavailable))
       march_1
     = Some (Finished,
             [(Query (SelectAll (''livestock'', 2024, 2) None), Some NotFound),
              (Load (''livestock'', 2024, 3) cattle_batch, Some ServiceUnavailable),
              (Query (SelectAll (''livestock'', 2024, 3) None), None),
              (DeleteTable (''livestock'', 2024, 3), None),
              (CreateTable (''livestock'', 2024, 3) (schema Livestock), None),
              (Load (''livestock'', 2024, 3) cattle_batch, None)])"
proof -
  let ?W = "world (one_page 140 cattle_page) (tables_store [((''livestock'', 2024, 3), cattle_batch)])
              (Some ServiceUnavailable)"
  have a: "append_batch Livestock ?W march_1 cattle_batch
           = (None, [(Query (SelectAll (''livestock'', 2024, 2) None), Some NotFound),
                     (Load (''livestock'', 2024, 3) cattle_batch, Some ServiceUnavailable)])"
    by (simp add: append_eval call_eval world_def tables_store_def march_1_def)
  have d: "drop_duplicates (dedup_key Livestock) cattle_batch = Inr cattle_batch"
    by (simp add: dedup_eval cattle_batch_def)
  have d': "duplicated (dedup_key Livestock) cattle_batch = Inr [False]"
    by (simp add: dedup_eval cattle_batch_def)
  have w: "wait_job (job_state ?W) (job_reload ?W) 0 = Some None"
    by (simp add: wait_job.simps world_def)
  have r: "reconcile Livestock ?W march_1
             [(Query (SelectAll (''livestock'', 2024, 2) None), Some NotFound),
              (Load (''livestock'', 2024, 3) cattle_batch, Some ServiceUnavailable)]
           = Some (Finished,
             [(Query (SelectAll (''livestock'', 2024, 2) None), Some NotFound),
              (Load (''livestock'', 2024, 3) cattle_batch, Some ServiceUnavailable),
              (Query (SelectAll (''livestock'', 2024, 3) None), None),
              (DeleteTable (''livestock'', 2024, 3), None),
              (CreateTable (''livestock'', 2024, 3) (schema Livestock), None),
              (Load (''livestock'', 2024, 3) cattle_batch, None)])"
    unfolding reconcile_def w
    by (simp add: call_eval world_def tables_store_def march_1_def table_id_def d d'
        del: schema.simps dedup_key.simps)
  have n: "\<not> empty_df cattle_page" by (simp add: empty_df_def cattle_page_def)
  have f: "fetch_all ?W (commodities Livestock) DataFrame = Some (Inr cattle_page)"
    using fetch_livestock [of cattle_page] by (simp only: cattle_page_fetched)
  have l: "load_outcome ?W [(Query (SelectAll (''livestock'', 2024, 2) None), Some NotFound)]
     (''livestock'', 2024, 3) cattle_batch = Some ServiceUnavailable"
    by (simp add: load_outcome_def world_def)
  from run_after_fetch [OF f n normalise_cattle_page, of march_1] a r l
  show ?thesis by simp
qed


theorem failed_append_fatal_after_first_day_witness:
  "fetch_all (world (one_page 217 fertilizer_page) (tables_store []) (Some ServiceUnavailable))
     (commodities Fertilizer) DataFrame = Some (Inr fertilizer_page)
   \<and> \<not> empty_df fertilizer_page
   \<and> day march_5 \<noteq> 1
   \<and> load_outcome (world (one_page 217 fertilizer_page) (tables_store []) (Some ServiceUnavailable))
       [] (table_id Fertilizer march_5) fert_batch = Some ServiceUnavailable
   \<and> run Fertilizer
       (world (one_page 217 fertilizer_page) (tables_store []) (Some ServiceUnavailable)) march_5
     = Some (Raised ServiceUnavailable,
             [(Load (''fertilizer'', 2024, 3) fert_batch, Some ServiceUnavailable)])"
proof -
  let ?W = "world (one_page 217 fertilizer_page) (tables_store []) (Some ServiceUnavailable)"
  have f: "fetch_all ?W (commodities Fertilizer) DataFrame = Some (Inr fertilizer_page)"
    using fetch_fertilizer [of fertilizer_page] by (simp only: fertilizer_page_fetched)
  have n: "\<not> empty_df fertilizer_page" by (simp add: empty_df_def fertilizer_page_def)
  have d: "day march_5 \<noteq> 1" by (simp add: march_5_def)
  have l: "load_outcome ?W [] (table_id Fertilizer march_5) fert_batch = Some ServiceUnavailable"
    by (simp add: load_outcome_def world_def)
  have t: "table_id Fertilizer march_5 = (''fertilizer'', 2024, 3)"
    by (simp add: table_id_def march_5_def)
  from failed_append_fatal_after_first_day [OF f n normalise_fertilizer_page, of march_5] d l
  have "run Fertilizer ?W march_5
        = Some (Raised ServiceUnavailable,
                [(Load (table_id Fertilizer march_5) fert_batch, Some ServiceUnavailable)])"
    by blast
  with f n d l show ?thesis unfolding t by blast
qed

section \<open>The ordering of the reads\<close>

text \<open>
  C7. The read of the reconciliation pass of fertilizer.py asks for
  \<^verbatim>\<open>ORDER BY start_date DESC\<close>. No column of the table's schema has that name; the read
  of the previous table in the same file orders by \<^verbatim>\<open>date\<close>, which is one. On a store
  that rejects the unknown column, a run that appended its batch ends at that read, the
  table left as appended.
\<close>

theorem fertilizer_reconcile_orders_by_start_date:
  "order_by (reconcile_sql Fertilizer march_5) = Some ''start_date''
   \<and> ''start_date'' \<notin> set (map fst (schema Fertilizer))
   \<and> order_by (prev_sql Fertilizer march_5) = Some ''date''
   \<and> ''date'' \<in> set (map fst (schema Fertilizer))
   \<and> run Fertilizer
       (world (one_page 217 fertilizer_page)
          (tables_store [((''fertilizer'', 2024, 3), fert_batch)]) None) march_5
     = Some (Raised BadRequest,
             [(Load (''fertilizer'', 2024, 3) fert_batch, None),
              (Query (SelectAll (''fertilizer'', 2024, 3) (Some ''start_date'')),
               Some BadRequest)])"
proof -
  let ?W = "world (one_page 217 fertilizer_page)
              (tables_store [((''fertilizer'', 2024, 3), fert_batch)]) None"
  have f: "fetch_all ?W (commodities Fertilizer) DataFrame = Some (Inr fertilizer_page)"
    using fetch_fertilizer [of fertilizer_page] by (simp only: fertilizer_page_fetched)
  have n: "\<not> empty_df fertilizer_page" by (simp add: empty_df_def fertilizer_page_def)
  have a: "append_batch Fertilizer ?W march_5 fert_batch
           = (None, [(Load (''fertilizer'', 2024, 3) fert_batch, None)])"
    by (simp add: append_eval call_eval world_def march_5_def)
  have r: "reconcile Fertilizer ?W march_5 [(Load (''fertilizer'', 2024, 3) fert_batch, None)]
           = Some (Raised BadRequest,
                   [(Load (''fertilizer'', 2024, 3) fert_batch, None),
                    (Query (SelectAll (''fertilizer'', 2024, 3) (Some ''start_date'')),
                     Some BadRequest)])"
    by (simp add: reconcile_def call_eval world_def tables_store_def march_5_def fert_batch_def
        table_id_def)
  from run_after_fetch [OF f n normalise_fertilizer_page, of march_5] a r
  show ?thesis by simp
qed

end
